theory Spec2Isabelle
  imports Complex_Main
begin

section \<open>SOI crossings and closest approach of a PHA\<close>

text \<open>
  The embedding follows \<^verbatim>\<open>src/draft_examples/try_3.py\<close>. Ephemeris times and
  distances are Python floats in the source; they are modelled as \<^typ>\<open>real\<close>, so
  every statement below is about exact arithmetic and says nothing about rounding.
  The SPICE and SciPy routines the source calls are library code: they are supplied
  as the fields of a record of services, and every theorem holds for any such record.
  The \<^verbatim>\<open>print\<close> calls only report values and are left out; the last one formats
  \<^verbatim>\<open>min_et\<close>, which is never \<^verbatim>\<open>None\<close> when that line is reached (lemma
  \<open>calculate_crossings_min_et\<close>). The iteration budget \<^verbatim>\<open>max_iter\<close> is a natural number:
  a negative budget gives \<^verbatim>\<open>range\<close> no element, as the budget 0 does.
\<close>

subsection \<open>Data\<close>

type_synonym vec = "real list"
type_synonym elements = "real list"

text \<open>
  The two exceptions that can leave \<^verbatim>\<open>calculate_crossings\<close>: the
  \<^verbatim>\<open>RuntimeError\<close> of the source, and the \<^verbatim>\<open>ValueError\<close> that
  \<^verbatim>\<open>scipy.optimize.brentq\<close> raises on a bracket without a sign change.
\<close>

datatype error = RuntimeError string | ValueError string

text \<open>A Python float that may be \<^verbatim>\<open>np.inf\<close> (the initial \<^verbatim>\<open>min_distance\<close>).\<close>

datatype pyfloat = PInf | Fin real

fun lt_pyfloat :: "real \<Rightarrow> pyfloat \<Rightarrow> bool" where
  "lt_pyfloat x PInf = True"
| "lt_pyfloat x (Fin m) = (x < m)"

record services =
  conics :: "elements \<Rightarrow> real \<Rightarrow> vec"
  spkgeo :: "int \<Rightarrow> real \<Rightarrow> string \<Rightarrow> int \<Rightarrow> vec \<times> real"
  vnorm :: "vec \<Rightarrow> real"
  oscelt :: "vec \<Rightarrow> real \<Rightarrow> real \<Rightarrow> elements"
  brentq :: "(real \<Rightarrow> real) \<Rightarrow> real \<Rightarrow> real \<Rightarrow> error + real"

definition LD :: real where "LD = 384400"
definition GM_EARTH :: real where "GM_EARTH = 398600.4418"
definition EARTH_ID :: int where "EARTH_ID = 399"
definition SUN_ID :: int where "SUN_ID = 10"

subsection \<open>The quadratic fit\<close>

definition mean3 :: "real \<times> real \<times> real \<Rightarrow> real" where
  "mean3 ts = (case ts of (t1, t2, t3) \<Rightarrow> (t1 + t2 + t3) / 3)"

text \<open>
  \<^verbatim>\<open>np.polyfit(x, y, 2)\<close> on three points is NumPy code, not code of the repository:
  a least-squares fit in floating point. The definition is its idealisation in exact
  arithmetic: for three points with pairwise distinct abscissae, the one parabola
  \<open>a*x^2 + b*x + c\<close> that passes through them (lemmas \<open>polyfit2_interpolates\<close> and
  \<open>polyfit2_quadratic\<close>), computed by divided differences, coefficients of the highest
  degree first. The coefficients NumPy returns differ from these by rounding, so nothing
  below claims an exact value of the source's fit; what is used of it is where the fit
  goes (the state it is stored in) and, for the order of the times, that the vertex of a
  window with a strict middle minimum lies within half a step of the middle time.
\<close>

definition polyfit2 :: "real \<times> real \<times> real \<Rightarrow> real \<times> real \<times> real \<Rightarrow> real \<times> real \<times> real" where
  "polyfit2 xs ys =
     (case (xs, ys) of ((x1, x2, x3), (y1, y2, y3)) \<Rightarrow>
        let s12 = (y2 - y1) / (x2 - x1);
            s23 = (y3 - y2) / (x3 - x2);
            a = (s23 - s12) / (x3 - x1);
            b = s12 - a * (x1 + x2);
            c = y1 - a * x1 * x1 - b * x1
        in (a, b, c))"

definition quadratic_approximation ::
    "real \<Rightarrow> real \<Rightarrow> real \<Rightarrow> real \<Rightarrow> real \<Rightarrow> real \<Rightarrow> real" where
  "quadratic_approximation t1 d1 t2 d2 t3 d3 =
     (let ts = (t1, t2, t3);
          ds = (d1, d2, d3);
          ts_shift = (t1 - mean3 ts, t2 - mean3 ts, t3 - mean3 ts);
          (a, b, c) = polyfit2 ts_shift ds;
          t_min_local = - b / (2 * a)
      in t_min_local + mean3 ts)"

subsection \<open>The distance oracle\<close>

definition distance_from_earth :: "services \<Rightarrow> real \<Rightarrow> elements \<Rightarrow> real" where
  "distance_from_earth sv t pha_elements =
     (let pha_vec = conics sv pha_elements t;
          (earth_vec, lt) = spkgeo sv EARTH_ID t ''ECLIPJ2000'' SUN_ID;
          pha_wrt_earth = map2 (-) pha_vec earth_vec
      in vnorm sv (take 3 pha_wrt_earth))"

subsection \<open>Scan for the first SOI crossing\<close>

text \<open>
  The \<^verbatim>\<open>for i in range(max_iter)\<close> loop of step 1, with \<^verbatim>\<open>dt_et\<close> passed
  along. Running out of iterations is the loop's \<^verbatim>\<open>else\<close> branch, which raises.
  The value is \<^verbatim>\<open>t_entry\<close>, or the exception of \<^verbatim>\<open>brentq\<close>.
\<close>

fun entry_scan :: "services \<Rightarrow> elements \<Rightarrow> real \<Rightarrow> real \<Rightarrow> real \<Rightarrow> nat \<Rightarrow> error + real" where
  "entry_scan sv pha_el soi step dt_et 0 = Inl (RuntimeError ''First SOI crossing not found'')"
| "entry_scan sv pha_el soi step dt_et (Suc i) =
     (let dist = distance_from_earth sv dt_et pha_el in
      if dist \<le> soi
      then brentq sv (\<lambda>t. distance_from_earth sv t pha_el - soi) (dt_et - step) dt_et
      else entry_scan sv pha_el soi step (dt_et + step) i)"

subsection \<open>Scan for the second SOI crossing\<close>

text \<open>
  The loop of step 4, with \<^verbatim>\<open>soi_crossings\<close> passed along. It has no
  \<^verbatim>\<open>else\<close> branch either: after \<^verbatim>\<open>max_iter\<close> iterations the list is unchanged.
\<close>

fun exit_scan ::
    "services \<Rightarrow> elements \<Rightarrow> real \<Rightarrow> real \<Rightarrow> real \<Rightarrow> nat \<Rightarrow> real list \<Rightarrow> error + real list" where
  "exit_scan sv pha_el_wrt_earth soi step dt_et 0 soi_crossings = Inr soi_crossings"
| "exit_scan sv pha_el_wrt_earth soi step dt_et (Suc i) soi_crossings =
     (let dist = distance_from_earth sv dt_et pha_el_wrt_earth in
      if dist \<ge> soi
      then (case brentq sv (\<lambda>t. distance_from_earth sv t pha_el_wrt_earth - soi)
                   (dt_et - step) dt_et of
              Inl e \<Rightarrow> Inl e
            | Inr t_exit \<Rightarrow> Inr (soi_crossings @ [t_exit]))
      else exit_scan sv pha_el_wrt_earth soi step (dt_et + step) i soi_crossings)"

subsection \<open>Scan for the closest approach inside the SOI\<close>

record scan_state =
  dt_et :: real
  step :: real
  bracket :: "(real \<times> real) list"
  min_distance :: pyfloat
  min_et :: "real option"

text \<open>How one pass through a loop body ends: with \<^verbatim>\<open>break\<close>, or at its last line.\<close>

datatype 'a flow = Break 'a | Continue 'a

fun flow_state :: "'a flow \<Rightarrow> 'a" where
  "flow_state (Break s) = s"
| "flow_state (Continue s) = s"

text \<open>
  Lines 75 to 89: the test of a full window. \<^verbatim>\<open>len(bracket) == 3\<close> is the match
  against a list of three samples; any other window is left as it is.
\<close>

definition check_bracket :: "services \<Rightarrow> elements \<Rightarrow> scan_state \<Rightarrow> scan_state flow" where
  "check_bracket sv pha_el_wrt_earth s =
     (case bracket s of
        [(t1, d1), (t2, d2), (t3, d3)] \<Rightarrow>
          if d2 < d1 \<and> d2 < d3 then
            let t_min = quadratic_approximation t1 d1 t2 d2 t3 d3;
                pha_vec_min = conics sv pha_el_wrt_earth t_min;
                d_min = vnorm sv (take 3 pha_vec_min)
            in Break (s\<lparr>min_distance := Fin d_min, min_et := Some t_min,
                         dt_et := t_min + 10, step := 10\<rparr>)
          else Continue (s\<lparr>bracket := tl (bracket s)\<rparr>)
      | _ \<Rightarrow> Continue s)"

text \<open>Lines 70 to 95: one iteration of the loop of step 3.\<close>

definition interior_body :: "services \<Rightarrow> elements \<Rightarrow> scan_state \<Rightarrow> scan_state flow" where
  "interior_body sv pha_el_wrt_earth s =
     (let pha_vec = conics sv pha_el_wrt_earth (dt_et s);
          earth_dist = vnorm sv (take 3 pha_vec)
      in case check_bracket sv pha_el_wrt_earth
                (s\<lparr>bracket := bracket s @ [(dt_et s, earth_dist)]\<rparr>) of
           Break s' \<Rightarrow> Break s'
         | Continue s' \<Rightarrow>
             let s'' = (if lt_pyfloat earth_dist (min_distance s')
                        then s'\<lparr>min_distance := Fin earth_dist, min_et := Some (dt_et s')\<rparr>
                        else s')
             in Continue (s''\<lparr>dt_et := dt_et s'' + step s''\<rparr>))"

text \<open>
  The loop of step 3. It has no \<^verbatim>\<open>else\<close> branch: after \<^verbatim>\<open>max_iter\<close> iterations
  the state is simply what the last iteration left (\<open>Continue\<close>); a confirmed
  three-point minimum leaves the loop at once (\<open>Break\<close>).
\<close>

fun interior_scan :: "services \<Rightarrow> elements \<Rightarrow> nat \<Rightarrow> scan_state \<Rightarrow> scan_state flow" where
  "interior_scan sv pha_el_wrt_earth 0 s = Continue s"
| "interior_scan sv pha_el_wrt_earth (Suc i) s =
     (case interior_body sv pha_el_wrt_earth s of
        Break s' \<Rightarrow> Break s'
      | Continue s' \<Rightarrow> interior_scan sv pha_el_wrt_earth i s')"

subsection \<open>The whole computation\<close>

definition interior_start :: "real \<Rightarrow> scan_state" where
  "interior_start t_entry =
     \<lparr>dt_et = t_entry, step = 1, bracket = [], min_distance = PInf, min_et = None\<rparr>"

definition calculate_crossings ::
    "services \<Rightarrow> elements \<Rightarrow> real \<Rightarrow> real \<Rightarrow> nat
      \<Rightarrow> error + (real list \<times> real option \<times> pyfloat)" where
  "calculate_crossings sv pha_el dt_et_start soi max_iter =
     (case entry_scan sv pha_el soi 20 dt_et_start max_iter of
        Inl e \<Rightarrow> Inl e
      | Inr t_entry \<Rightarrow>
          let soi_crossings = [t_entry];
              pha_vec_entry = conics sv pha_el (hd soi_crossings);
              pha_el_wrt_earth = oscelt sv pha_vec_entry (hd soi_crossings) GM_EARTH;
              s = flow_state (interior_scan sv pha_el_wrt_earth max_iter
                                (interior_start (hd soi_crossings)))
          in case exit_scan sv pha_el_wrt_earth soi (step s) (dt_et s) max_iter soi_crossings of
               Inl e \<Rightarrow> Inl e
             | Inr soi_crossings' \<Rightarrow> Inr (soi_crossings', min_et s, min_distance s))"

subsection \<open>Notions used in the statements\<close>

text \<open>
  The raw sample of step 3 at time \<open>t\<close>: the norm of the first three components of
  the state propagated from the elements (lines 70 and 71, and again lines 79 and 80).
\<close>

abbreviation interior_distance :: "services \<Rightarrow> elements \<Rightarrow> real \<Rightarrow> real" where
  "interior_distance sv el t \<equiv> vnorm sv (take 3 (conics sv el t))"

text \<open>The samples number \<open>i\<close> to \<open>j - 1\<close> of a scan that starts at \<open>t0\<close> with step 1.\<close>

definition window_of :: "services \<Rightarrow> elements \<Rightarrow> real \<Rightarrow> nat \<Rightarrow> nat \<Rightarrow> (real \<times> real) list" where
  "window_of sv el t0 i j =
     map (\<lambda>k. (t0 + real k, interior_distance sv el (t0 + real k))) [i..<j]"

text \<open>
  \<open>md\<close> and \<open>me\<close> are the smallest of the first \<open>n\<close> raw samples and its time
  (\<^verbatim>\<open>np.inf\<close> and \<^verbatim>\<open>None\<close> before the first sample).
\<close>

definition raw_minimum ::
    "services \<Rightarrow> elements \<Rightarrow> real \<Rightarrow> nat \<Rightarrow> pyfloat \<Rightarrow> real option \<Rightarrow> bool" where
  "raw_minimum sv el t0 n md me \<longleftrightarrow>
     (if n = 0 then md = PInf \<and> me = None
      else \<exists>i<n. md = Fin (interior_distance sv el (t0 + real i)) \<and>
                  me = Some (t0 + real i) \<and>
                  (\<forall>j<n. interior_distance sv el (t0 + real i)
                            \<le> interior_distance sv el (t0 + real j)))"

text \<open>The state of the loop of step 3 after \<open>n\<close> iterations without a \<^verbatim>\<open>break\<close>.\<close>

definition scanning :: "services \<Rightarrow> elements \<Rightarrow> real \<Rightarrow> nat \<Rightarrow> scan_state \<Rightarrow> bool" where
  "scanning sv el t0 n s \<longleftrightarrow>
     dt_et s = t0 + real n \<and> step s = 1 \<and>
     bracket s = window_of sv el t0 (n - 2) n \<and>
     raw_minimum sv el t0 n (min_distance s) (min_et s)"


subsection \<open>Two small environments\<close>

text \<open>
  Concrete services on which the definitions can be evaluated. Vectors lie on one
  axis, the norm is the sum of the absolute values of the components, and the root
  finder takes one secant step over its bracket, which is the root of every function
  that is linear there; like \<^verbatim>\<open>brentq\<close> it refuses a bracket whose end values have
  the same sign.
\<close>

definition secant :: "(real \<Rightarrow> real) \<Rightarrow> real \<Rightarrow> real \<Rightarrow> error + real" where
  "secant f a b =
     (if f a * f b > 0 then Inl (ValueError ''f(a) and f(b) must have different signs'')
      else if f a = f b then Inr a
      else Inr (a - f a * (b - a) / (f b - f a)))"

text \<open>
  Rectilinear motion: the elements \<open>[p, v, e]\<close> stand for position \<open>p\<close> at epoch \<open>e\<close>
  and velocity \<open>v\<close>; the Earth rests at \<open>E\<close> on the axis.
\<close>

definition line_world :: "real \<Rightarrow> services" where
  "line_world E =
     \<lparr>conics = (\<lambda>el t. [el ! 0 + el ! 1 * (t - el ! 2), 0, 0, el ! 1, 0, 0]),
      spkgeo = (\<lambda>body t frame obs. ([E, 0, 0, 0, 0, 0], 0)),
      vnorm = (\<lambda>v. sum_list (map abs v)),
      oscelt = (\<lambda>state t mu. [state ! 0, state ! 3, t]),
      brentq = secant\<rparr>"

text \<open>
  A tabulated distance inside the SOI that is not convex: the raw samples at the times
  0, 1, 2, 3 are 1, 10, 9, 10. The Earth rests at the origin.
\<close>

definition table_world :: services where
  "table_world =
     \<lparr>conics = (\<lambda>el t. if el = [0] then [100 - 10 * t, 0, 0, 0, 0, 0]
                        else [if t = 0 then 1 else if t = 2 then 9
                              else if t \<le> 3 then 10 else 191, 0, 0, 0, 0, 0]),
      spkgeo = (\<lambda>body t frame obs. ([0, 0, 0, 0, 0, 0], 0)),
      vnorm = (\<lambda>v. sum_list (map abs v)),
      oscelt = (\<lambda>state t mu. [1]),
      brentq = secant\<rparr>"

subsection \<open>Facts about the quadratic fit\<close>

lemma polyfit2_interpolates:
  assumes "x1 \<noteq> x2" "x2 \<noteq> x3" "x1 \<noteq> x3"
    and "polyfit2 (x1, x2, x3) (y1, y2, y3) = (a, b, c)"
  shows "a * x1 * x1 + b * x1 + c = y1"
    and "a * x2 * x2 + b * x2 + c = y2"
    and "a * x3 * x3 + b * x3 + c = y3"
proof -
  define s12 where "s12 = (y2 - y1) / (x2 - x1)"
  define s23 where "s23 = (y3 - y2) / (x3 - x2)"
  from assms(4) have abc: "a = (s23 - s12) / (x3 - x1) \<and> b = s12 - a * (x1 + x2) \<and>
      c = y1 - a * x1 * x1 - b * x1"
    by (auto simp: polyfit2_def Let_def s12_def s23_def)
  then have a: "a = (s23 - s12) / (x3 - x1)"
    and b: "b = s12 - a * (x1 + x2)"
    and c: "c = y1 - a * x1 * x1 - b * x1"
    by blast+
  show y1: "a * x1 * x1 + b * x1 + c = y1"
    by (simp add: c)
  have d12: "s12 * (x2 - x1) = y2 - y1"
    using assms(1) by (simp add: s12_def)
  have d23: "s23 * (x3 - x2) = y3 - y2"
    using assms(2) by (simp add: s23_def)
  have da: "a * (x3 - x1) = s23 - s12"
    using assms(3) by (simp add: a)
  have "a * x2 * x2 + b * x2 + c = y1 + s12 * (x2 - x1)"
    by (simp add: c b algebra_simps)
  with d12 show y2: "a * x2 * x2 + b * x2 + c = y2" by simp
  have "a * x3 * x3 + b * x3 + c
          = (a * x2 * x2 + b * x2 + c) + (a * (x3 - x1) + s12) * (x3 - x2)"
    by (simp add: b algebra_simps)
  also have "\<dots> = y2 + s23 * (x3 - x2)"
    by (simp add: y2 da)
  finally show "a * x3 * x3 + b * x3 + c = y3"
    using d23 by simp
qed

lemma polyfit2_quadratic:
  assumes "x1 \<noteq> x2" "x2 \<noteq> x3" "x1 \<noteq> x3"
  shows "polyfit2 (x1, x2, x3)
           (A * x1 * x1 + B * x1 + C, A * x2 * x2 + B * x2 + C, A * x3 * x3 + B * x3 + C)
         = (A, B, C)"
proof -
  have s12: "((A * x2 * x2 + B * x2 + C) - (A * x1 * x1 + B * x1 + C)) / (x2 - x1)
             = A * (x1 + x2) + B"
    using assms(1) by (simp add: field_simps)
  have s23: "((A * x3 * x3 + B * x3 + C) - (A * x2 * x2 + B * x2 + C)) / (x3 - x2)
             = A * (x2 + x3) + B"
    using assms(2) by (simp add: field_simps)
  have a: "((A * (x2 + x3) + B) - (A * (x1 + x2) + B)) / (x3 - x1) = A"
    using assms(3) by (simp add: field_simps)
  show ?thesis
    unfolding polyfit2_def Let_def prod.case s12 s23 a
    by (simp add: algebra_simps)
qed

text \<open>
  In exact arithmetic the fit of three samples of a parabola, taken at pairwise distinct
  times, is the time of its vertex. This is a fact about the definitions above only: the
  source computes in floating point and its results differ from these by rounding.
\<close>

lemma quadratic_approximation_vertex_exact:
  assumes "0 < a" and "t1 \<noteq> t2" and "t2 \<noteq> t3" and "t1 \<noteq> t3"
  shows "quadratic_approximation
           t1 (a * (t1 - t0)\<^sup>2 + d0) t2 (a * (t2 - t0)\<^sup>2 + d0) t3 (a * (t3 - t0)\<^sup>2 + d0)
         = t0"
proof -
  define m where "m = mean3 (t1, t2, t3)"
  define B where "B = 2 * a * (m - t0)"
  define C where "C = a * (m - t0)\<^sup>2 + d0"
  have d: "a * (t - t0)\<^sup>2 + d0 = a * (t - m) * (t - m) + B * (t - m) + C" for t
    by (simp add: B_def C_def power2_eq_square algebra_simps)
  have fit: "polyfit2 (t1 - m, t2 - m, t3 - m)
               (a * (t1 - t0)\<^sup>2 + d0, a * (t2 - t0)\<^sup>2 + d0, a * (t3 - t0)\<^sup>2 + d0)
             = (a, B, C)"
    unfolding d using assms(2-4) by (intro polyfit2_quadratic) simp_all
  have "- B / (2 * a) + m = t0"
    using assms(1) by (simp add: B_def field_simps)
  then show ?thesis
    unfolding quadratic_approximation_def Let_def m_def [symmetric] fit prod.case .
qed

subsection \<open>Facts about the two crossing scans\<close>

lemma scan_times_shift:
  assumes "\<forall>j<Suc k. P (t + real j * h)"
  shows "P t" and "\<forall>j<k. P (t + h + real j * h)"
proof -
  from assms have "P (t + real 0 * h)" by blast
  then show "P t" by simp
  show "\<forall>j<k. P (t + h + real j * h)"
  proof (intro allI impI)
    fix j assume "j < k"
    then have "Suc j < Suc k" by simp
    with assms have "P (t + real (Suc j) * h)" by blast
    moreover have "t + real (Suc j) * h = t + h + real j * h"
      by (simp add: algebra_simps)
    ultimately show "P (t + h + real j * h)" by (simp only:)
  qed
qed

lemma scan_time_Suc: "t + h + real k * h = t + real (Suc k) * h"
  by (simp add: algebra_simps)

lemma entry_scan_stops_first:
  assumes "k < n"
    and "\<forall>j<k. soi < distance_from_earth sv (t + real j * h) el"
    and "distance_from_earth sv (t + real k * h) el \<le> soi"
  shows "entry_scan sv el soi h t n =
           brentq sv (\<lambda>t'. distance_from_earth sv t' el - soi) (t + real k * h - h) (t + real k * h)"
  using assms
proof (induction k arbitrary: n t)
  case 0
  then obtain i where n: "n = Suc i" by (cases n) auto
  from 0 show ?case by (simp add: n)
next
  case (Suc k)
  then obtain i where n: "n = Suc i" and ki: "k < i" by (cases n) auto
  note sh = scan_times_shift [where P = "\<lambda>x. soi < distance_from_earth sv x el", OF Suc.prems(2)]
  have stop: "distance_from_earth sv (t + h + real k * h) el \<le> soi"
    using Suc.prems(3) by (simp only: scan_time_Suc)
  have "entry_scan sv el soi h (t + h) i =
          brentq sv (\<lambda>t'. distance_from_earth sv t' el - soi)
            (t + h + real k * h - h) (t + h + real k * h)"
    by (rule Suc.IH [OF ki sh(2) stop])
  with sh(1) show ?case by (simp add: n scan_time_Suc del: of_nat_Suc)
qed

lemma entry_scan_not_found:
  assumes "\<forall>j<n. soi < distance_from_earth sv (t + real j * h) el"
  shows "entry_scan sv el soi h t n = Inl (RuntimeError ''First SOI crossing not found'')"
  using assms
proof (induction n arbitrary: t)
  case 0
  show ?case by simp
next
  case (Suc n)
  note sh = scan_times_shift [where P = "\<lambda>x. soi < distance_from_earth sv x el", OF Suc.prems]
  from sh(1) Suc.IH [OF sh(2)] show ?case by simp
qed

lemma exit_scan_stops_first:
  assumes "k < n"
    and "\<forall>j<k. distance_from_earth sv (t + real j * h) el < soi"
    and "soi \<le> distance_from_earth sv (t + real k * h) el"
  shows "exit_scan sv el soi h t n cs =
           (case brentq sv (\<lambda>t'. distance_from_earth sv t' el - soi)
                   (t + real k * h - h) (t + real k * h) of
              Inl e \<Rightarrow> Inl e | Inr t_exit \<Rightarrow> Inr (cs @ [t_exit]))"
  using assms
proof (induction k arbitrary: n t)
  case 0
  then obtain i where n: "n = Suc i" by (cases n) auto
  from 0 show ?case by (simp add: n)
next
  case (Suc k)
  then obtain i where n: "n = Suc i" and ki: "k < i" by (cases n) auto
  note sh = scan_times_shift [where P = "\<lambda>x. distance_from_earth sv x el < soi", OF Suc.prems(2)]
  have stop: "soi \<le> distance_from_earth sv (t + h + real k * h) el"
    using Suc.prems(3) by (simp only: scan_time_Suc)
  have "exit_scan sv el soi h (t + h) i cs =
          (case brentq sv (\<lambda>t'. distance_from_earth sv t' el - soi)
                  (t + h + real k * h - h) (t + h + real k * h) of
             Inl e \<Rightarrow> Inl e | Inr t_exit \<Rightarrow> Inr (cs @ [t_exit]))"
    by (rule Suc.IH [OF ki sh(2) stop])
  with sh(1) show ?case by (simp add: n scan_time_Suc del: of_nat_Suc)
qed

lemma exit_scan_exhausted:
  assumes "\<forall>j<n. distance_from_earth sv (t + real j * h) el < soi"
  shows "exit_scan sv el soi h t n cs = Inr cs"
  using assms
proof (induction n arbitrary: t)
  case 0
  show ?case by simp
next
  case (Suc n)
  note sh = scan_times_shift [where P = "\<lambda>x. distance_from_earth sv x el < soi", OF Suc.prems]
  from sh(1) Suc.IH [OF sh(2)] show ?case by simp
qed

subsection \<open>Facts about the scan inside the SOI\<close>

lemma check_bracket_short:
  "length (bracket s) < 3 \<Longrightarrow> check_bracket sv el s = Continue s"
  by (auto simp: check_bracket_def split: list.splits prod.splits)

lemma check_bracket_full:
  "bracket s = [(t1, d1), (t2, d2), (t3, d3)] \<Longrightarrow>
   check_bracket sv el s =
     (if d2 < d1 \<and> d2 < d3
      then Break (s\<lparr>min_distance := Fin (interior_distance sv el (quadratic_approximation t1 d1 t2 d2 t3 d3)),
                    min_et := Some (quadratic_approximation t1 d1 t2 d2 t3 d3),
                    dt_et := quadratic_approximation t1 d1 t2 d2 t3 d3 + 10, step := 10\<rparr>)
      else Continue (s\<lparr>bracket := [(t2, d2), (t3, d3)]\<rparr>))"
  by (simp add: check_bracket_def Let_def)

lemma interior_body_short:
  assumes "length (bracket s) < 2"
  shows "interior_body sv el s =
     Continue (s\<lparr>bracket := bracket s @ [(dt_et s, interior_distance sv el (dt_et s))],
                 min_distance := (if lt_pyfloat (interior_distance sv el (dt_et s)) (min_distance s)
                                  then Fin (interior_distance sv el (dt_et s)) else min_distance s),
                 min_et := (if lt_pyfloat (interior_distance sv el (dt_et s)) (min_distance s)
                            then Some (dt_et s) else min_et s),
                 dt_et := dt_et s + step s\<rparr>)"
  using assms by (simp add: interior_body_def Let_def check_bracket_short)

lemma interior_body_full:
  assumes "bracket s = [(t1, d1), (t2, d2)]"
  shows "interior_body sv el s =
     (if d2 < d1 \<and> d2 < interior_distance sv el (dt_et s)
      then let t_min = quadratic_approximation t1 d1 t2 d2 (dt_et s) (interior_distance sv el (dt_et s))
           in Break (s\<lparr>bracket := [(t1, d1), (t2, d2), (dt_et s, interior_distance sv el (dt_et s))],
                        min_distance := Fin (interior_distance sv el t_min),
                        min_et := Some t_min, dt_et := t_min + 10, step := 10\<rparr>)
      else Continue (s\<lparr>bracket := [(t2, d2), (dt_et s, interior_distance sv el (dt_et s))],
                 min_distance := (if lt_pyfloat (interior_distance sv el (dt_et s)) (min_distance s)
                                  then Fin (interior_distance sv el (dt_et s)) else min_distance s),
                 min_et := (if lt_pyfloat (interior_distance sv el (dt_et s)) (min_distance s)
                            then Some (dt_et s) else min_et s),
                 dt_et := dt_et s + step s\<rparr>))"
  using assms
  by (simp add: interior_body_def Let_def
      check_bracket_full [where ?t1.0 = t1 and ?d1.0 = d1 and ?t2.0 = t2 and ?d2.0 = d2
        and ?t3.0 = "dt_et s" and ?d3.0 = "interior_distance sv el (dt_et s)"])

lemma window_of_empty [simp]: "window_of sv el t0 n n = []"
  by (simp add: window_of_def)

lemma window_of_snoc:
  "i \<le> n \<Longrightarrow> window_of sv el t0 i (Suc n) =
     window_of sv el t0 i n @ [(t0 + real n, interior_distance sv el (t0 + real n))]"
  by (simp add: window_of_def)

lemma window_of_Cons:
  "i < n \<Longrightarrow> window_of sv el t0 i n =
     (t0 + real i, interior_distance sv el (t0 + real i)) # window_of sv el t0 (Suc i) n"
  by (simp add: window_of_def upt_conv_Cons)

lemma window_of_two:
  "window_of sv el t0 m (Suc (Suc m)) =
     [(t0 + real m, interior_distance sv el (t0 + real m)),
      (t0 + real (Suc m), interior_distance sv el (t0 + real (Suc m)))]"
  by (simp add: window_of_Cons)

lemma length_window_of [simp]: "length (window_of sv el t0 i j) = j - i"
  by (simp add: window_of_def)

lemma raw_minimum_start: "raw_minimum sv el t0 0 PInf None"
  by (simp add: raw_minimum_def)

lemma raw_minimum_step:
  assumes "raw_minimum sv el t0 n md me"
  shows "raw_minimum sv el t0 (Suc n)
           (if lt_pyfloat (interior_distance sv el (t0 + real n)) md
            then Fin (interior_distance sv el (t0 + real n)) else md)
           (if lt_pyfloat (interior_distance sv el (t0 + real n)) md
            then Some (t0 + real n) else me)"
proof (cases "n = 0")
  case True
  with assms have "md = PInf" by (simp add: raw_minimum_def)
  with True show ?thesis by (simp add: raw_minimum_def)
next
  case False
  with assms obtain i where i: "i < n"
    and md: "md = Fin (interior_distance sv el (t0 + real i))"
    and me: "me = Some (t0 + real i)"
    and least: "\<forall>j<n. interior_distance sv el (t0 + real i)
                        \<le> interior_distance sv el (t0 + real j)"
    by (auto simp: raw_minimum_def)
  show ?thesis
  proof (cases "interior_distance sv el (t0 + real n) < interior_distance sv el (t0 + real i)")
    case True
    have "\<forall>j<Suc n. interior_distance sv el (t0 + real n)
                      \<le> interior_distance sv el (t0 + real j)"
    proof (intro allI impI)
      fix j assume "j < Suc n"
      then consider "j = n" | "j < n" by linarith
      then show "interior_distance sv el (t0 + real n) \<le> interior_distance sv el (t0 + real j)"
      proof cases
        case 1 then show ?thesis by simp
      next
        case 2 with least True show ?thesis by fastforce
      qed
    qed
    with True md show ?thesis
      unfolding raw_minimum_def by (auto intro!: exI [of _ n])
  next
    case False
    have "\<forall>j<Suc n. interior_distance sv el (t0 + real i)
                      \<le> interior_distance sv el (t0 + real j)"
    proof (intro allI impI)
      fix j assume "j < Suc n"
      then consider "j = n" | "j < n" by linarith
      then show "interior_distance sv el (t0 + real i) \<le> interior_distance sv el (t0 + real j)"
      proof cases
        case 1 with False show ?thesis by simp
      next
        case 2 with least show ?thesis by simp
      qed
    qed
    with False md me i show ?thesis
      unfolding raw_minimum_def by (auto intro!: exI [of _ i])
  qed
qed

lemma scanning_start: "scanning sv el t0 0 (interior_start t0)"
  by (simp add: scanning_def interior_start_def raw_minimum_start)

lemma scanning_bracket_cases:
  assumes "scanning sv el t0 n s"
  obtains "n < 2" "length (bracket s) < 2"
  | m where "n = Suc (Suc m)"
      "bracket s = [(t0 + real m, interior_distance sv el (t0 + real m)),
                    (t0 + real (Suc m), interior_distance sv el (t0 + real (Suc m)))]"
proof (cases "n < 2")
  case True
  with assms have "length (bracket s) < 2" by (auto simp: scanning_def)
  with True that(1) show ?thesis by blast
next
  case False
  then obtain m where n: "n = Suc (Suc m)"
    by (metis One_nat_def Suc_1 less_Suc_eq not0_implies_Suc not_less_eq)
  with assms have "bracket s = window_of sv el t0 m (Suc (Suc m))"
    by (simp add: scanning_def)
  with n that(2) show ?thesis by (simp only: window_of_two)
qed

lemma scanning_step:
  assumes inv: "scanning sv el t0 n s" and body: "interior_body sv el s = Continue s'"
  shows "scanning sv el t0 (Suc n) s'"
proof -
  from inv have clock: "dt_et s = t0 + real n" "step s = 1"
    and win: "bracket s = window_of sv el t0 (n - 2) n"
    and rm: "raw_minimum sv el t0 n (min_distance s) (min_et s)"
    by (simp_all add: scanning_def)
  note rm' = raw_minimum_step [OF rm]
  from inv show ?thesis
  proof (cases rule: scanning_bracket_cases)
    case 1
    from body have s': "s' = s\<lparr>bracket := bracket s @ [(dt_et s, interior_distance sv el (dt_et s))],
                 min_distance := (if lt_pyfloat (interior_distance sv el (dt_et s)) (min_distance s)
                                  then Fin (interior_distance sv el (dt_et s)) else min_distance s),
                 min_et := (if lt_pyfloat (interior_distance sv el (dt_et s)) (min_distance s)
                            then Some (dt_et s) else min_et s),
                 dt_et := dt_et s + step s\<rparr>"
      unfolding interior_body_short [OF 1(2)] by simp
    from 1(1) have "Suc n - 2 = 0" "n - 2 = 0" by simp_all
    then have "window_of sv el t0 (Suc n - 2) (Suc n) =
                 bracket s @ [(t0 + real n, interior_distance sv el (t0 + real n))]"
      using win by (simp add: window_of_snoc)
    with rm' clock show ?thesis
      unfolding scanning_def s' by (simp add: clock split: if_splits)
  next
    case (2 m)
    from body have s': "s' = s\<lparr>bracket := [(t0 + real (Suc m), interior_distance sv el (t0 + real (Suc m))),
                                      (dt_et s, interior_distance sv el (dt_et s))],
                 min_distance := (if lt_pyfloat (interior_distance sv el (dt_et s)) (min_distance s)
                                  then Fin (interior_distance sv el (dt_et s)) else min_distance s),
                 min_et := (if lt_pyfloat (interior_distance sv el (dt_et s)) (min_distance s)
                            then Some (dt_et s) else min_et s),
                 dt_et := dt_et s + step s\<rparr>"
      unfolding interior_body_full [OF 2(2)] by (simp split: if_splits add: Let_def)
    have "window_of sv el t0 (Suc n - 2) (Suc n) =
            [(t0 + real (Suc m), interior_distance sv el (t0 + real (Suc m))),
             (t0 + real n, interior_distance sv el (t0 + real n))]"
      using window_of_two [of sv el t0 "Suc m"] by (simp add: 2(1))
    with rm' clock show ?thesis
      unfolding scanning_def s' by (simp add: clock split: if_splits)
  qed
qed

lemma scanning_break:
  assumes inv: "scanning sv el t0 n s" and body: "interior_body sv el s = Break s'"
  shows "\<exists>m. n = Suc (Suc m) \<and>
           interior_distance sv el (t0 + real (Suc m)) < interior_distance sv el (t0 + real m) \<and>
           interior_distance sv el (t0 + real (Suc m)) < interior_distance sv el (t0 + real n) \<and>
           s' = s\<lparr>bracket := window_of sv el t0 m (Suc n),
                  min_distance := Fin (interior_distance sv el
                    (quadratic_approximation
                       (t0 + real m) (interior_distance sv el (t0 + real m))
                       (t0 + real (Suc m)) (interior_distance sv el (t0 + real (Suc m)))
                       (t0 + real n) (interior_distance sv el (t0 + real n)))),
                  min_et := Some (quadratic_approximation
                       (t0 + real m) (interior_distance sv el (t0 + real m))
                       (t0 + real (Suc m)) (interior_distance sv el (t0 + real (Suc m)))
                       (t0 + real n) (interior_distance sv el (t0 + real n))),
                  dt_et := quadratic_approximation
                       (t0 + real m) (interior_distance sv el (t0 + real m))
                       (t0 + real (Suc m)) (interior_distance sv el (t0 + real (Suc m)))
                       (t0 + real n) (interior_distance sv el (t0 + real n)) + 10,
                  step := 10\<rparr>"
proof -
  from inv have clock: "dt_et s = t0 + real n" by (simp add: scanning_def)
  from inv show ?thesis
  proof (cases rule: scanning_bracket_cases)
    case 1
    with body show ?thesis by (simp add: interior_body_short)
  next
    case (2 m)
    from body show ?thesis
      unfolding interior_body_full [OF 2(2)] clock
      by (simp split: if_splits add: Let_def 2(1) window_of_Cons)
  qed
qed

lemma interior_scan_Continue:
  assumes "scanning sv el t0 n s" and "interior_scan sv el k s = Continue s'"
  shows "scanning sv el t0 (n + k) s'"
  using assms
proof (induction k arbitrary: n s)
  case 0
  then show ?case by simp
next
  case (Suc k)
  from Suc.prems(2) obtain s1 where body: "interior_body sv el s = Continue s1"
    and rest: "interior_scan sv el k s1 = Continue s'"
    by (auto split: flow.splits)
  from scanning_step [OF Suc.prems(1) body] have "scanning sv el t0 (Suc n) s1" .
  from Suc.IH [OF this rest] show ?case by simp
qed

lemma interior_scan_Break:
  assumes "scanning sv el t0 n s" and "interior_scan sv el k s = Break s'"
  shows "\<exists>m s1. n \<le> m \<and> m < n + k \<and> scanning sv el t0 m s1 \<and> interior_body sv el s1 = Break s'"
  using assms
proof (induction k arbitrary: n s)
  case 0
  then show ?case by simp
next
  case (Suc k)
  show ?case
  proof (cases "interior_body sv el s")
    case (Break s1)
    with Suc.prems(2) have "s1 = s'" by simp
    with Break Suc.prems(1) show ?thesis by (intro exI [of _ n] exI [of _ s]) simp
  next
    case (Continue s1)
    with Suc.prems(2) have rest: "interior_scan sv el k s1 = Break s'" by simp
    from scanning_step [OF Suc.prems(1) Continue] have "scanning sv el t0 (Suc n) s1" .
    from Suc.IH [OF this rest] obtain m s2 where "Suc n \<le> m" "m < Suc n + k"
      "scanning sv el t0 m s2" "interior_body sv el s2 = Break s'" by blast
    then show ?thesis by (intro exI [of _ m] exI [of _ s2]) simp
  qed
qed

lemma interior_scan_prefix:
  assumes "interior_scan sv el k s = Continue s'" and "j \<le> k"
  shows "\<exists>s1. interior_scan sv el j s = Continue s1"
  using assms
proof (induction j arbitrary: k s)
  case 0
  show ?case by simp
next
  case (Suc j)
  then obtain k' where k: "k = Suc k'" and jk: "j \<le> k'" by (cases k) auto
  from Suc.prems(1) obtain s1 where body: "interior_body sv el s = Continue s1"
    and rest: "interior_scan sv el k' s1 = Continue s'"
    unfolding k by (auto split: flow.splits)
  from Suc.IH [OF rest jk] body show ?case by simp
qed



lemma calculate_crossings_Inr:
  assumes "calculate_crossings sv pha_el start soi n = Inr (cs, et, md)"
  obtains t_entry s where
    "entry_scan sv pha_el soi 20 start n = Inr t_entry"
    "s = flow_state (interior_scan sv (oscelt sv (conics sv pha_el t_entry) t_entry GM_EARTH) n
           (interior_start t_entry))"
    "exit_scan sv (oscelt sv (conics sv pha_el t_entry) t_entry GM_EARTH) soi (step s) (dt_et s) n
       [t_entry] = Inr cs"
    "et = min_et s" "md = min_distance s"
  using assms
  by (auto simp: calculate_crossings_def Let_def split: sum.splits)

lemma entry_scan_Inr_positive:
  "entry_scan sv el soi h t n = Inr r \<Longrightarrow> 0 < n"
  by (cases n) auto

subsection \<open>Evaluation in the two environments\<close>

lemma line_world_distance:
  "distance_from_earth (line_world E) t [p, v, e] = \<bar>p + v * (t - e) - E\<bar>"
  by (simp add: distance_from_earth_def line_world_def)

lemma line_world_interior_distance:
  "interior_distance (line_world E) [p, v, e] t = \<bar>p + v * (t - e)\<bar>"
  by (simp add: line_world_def)

lemma line_world_conics:
  "conics (line_world E) [p, v, e] t = [p + v * (t - e), 0, 0, v, 0, 0]"
  by (simp add: line_world_def)

lemma line_world_oscelt: "oscelt (line_world E) st t mu = [st ! 0, st ! 3, t]"
  by (simp add: line_world_def)

lemma line_world_brentq: "brentq (line_world E) = secant"
  by (simp add: line_world_def)

lemmas line_world_simps =
  line_world_distance line_world_interior_distance line_world_conics line_world_oscelt
  line_world_brentq


lemma run_a_entry: "entry_scan (line_world 1000) [950, 50, 0] 100 20 0 3 = Inr (- 1)"
  by (simp add: eval_nat_numeral line_world_simps secant_def)

lemma run_a_interior:
  "interior_scan (line_world 1000) [900, 50, - 1] 3 (interior_start (- 1)) =
     Continue \<lparr>dt_et = 2, step = 1, bracket = [(0, 950), (1, 1000)],
               min_distance = Fin 900, min_et = Some (- 1)\<rparr>"
  by (simp add: eval_nat_numeral interior_start_def interior_body_def check_bracket_def
      line_world_def)

lemma run_a_exit: "exit_scan (line_world 1000) [900, 50, - 1] 100 1 2 3 [- 1] = Inr [- 1, 3]"
  by (simp add: eval_nat_numeral line_world_simps secant_def)

lemma run_a: "calculate_crossings (line_world 1000) [950, 50, 0] 0 100 3 =
    Inr ([- 1, 3], Some (- 1), Fin 900)"
  by (simp add: calculate_crossings_def run_a_entry line_world_simps run_a_interior run_a_exit)

lemma run_b_entry: "entry_scan (line_world 1000) [800, 5, 0] 100 20 0 3 = Inr 20"
  by (simp add: eval_nat_numeral line_world_simps secant_def)

lemma run_b_interior:
  "interior_scan (line_world 1000) [900, 5, 20] 3 (interior_start 20) =
     Continue \<lparr>dt_et = 23, step = 1, bracket = [(21, 905), (22, 910)],
               min_distance = Fin 900, min_et = Some 20\<rparr>"
  by (simp add: eval_nat_numeral interior_start_def interior_body_def check_bracket_def
      line_world_def)

lemma run_b_exit: "exit_scan (line_world 1000) [900, 5, 20] 100 1 23 3 [20] = Inr [20]"
  by (simp add: eval_nat_numeral line_world_simps secant_def)

lemma run_b: "calculate_crossings (line_world 1000) [800, 5, 0] 0 100 3 =
    Inr ([20], Some 20, Fin 900)"
  by (simp add: calculate_crossings_def run_b_entry line_world_simps run_b_interior run_b_exit)





lemma interior_scan_start_Continue:
  assumes "interior_scan sv el n (interior_start t0) = Continue s"
  shows "scanning sv el t0 n s"
  using interior_scan_Continue [OF scanning_start assms] by simp

lemma interior_scan_start_Break:
  assumes "interior_scan sv el n (interior_start t0) = Break s"
  shows "\<exists>m. Suc (Suc m) < n \<and>
           interior_distance sv el (t0 + real m + 1) < interior_distance sv el (t0 + real m) \<and>
           interior_distance sv el (t0 + real m + 1) < interior_distance sv el (t0 + real m + 2) \<and>
           min_et s = Some (quadratic_approximation
              (t0 + real m) (interior_distance sv el (t0 + real m))
              (t0 + real m + 1) (interior_distance sv el (t0 + real m + 1))
              (t0 + real m + 2) (interior_distance sv el (t0 + real m + 2))) \<and>
           min_distance s = Fin (interior_distance sv el (quadratic_approximation
              (t0 + real m) (interior_distance sv el (t0 + real m))
              (t0 + real m + 1) (interior_distance sv el (t0 + real m + 1))
              (t0 + real m + 2) (interior_distance sv el (t0 + real m + 2)))) \<and>
           dt_et s = quadratic_approximation
              (t0 + real m) (interior_distance sv el (t0 + real m))
              (t0 + real m + 1) (interior_distance sv el (t0 + real m + 1))
              (t0 + real m + 2) (interior_distance sv el (t0 + real m + 2)) + 10 \<and>
           step s = 10"
proof -
  from interior_scan_Break [OF scanning_start assms]
  obtain k s1 where k: "k < n" and inv: "scanning sv el t0 k s1"
    and body: "interior_body sv el s1 = Break s"
    by auto
  from scanning_break [OF inv body] obtain m where m: "k = Suc (Suc m)"
    and lo: "interior_distance sv el (t0 + real (Suc m)) < interior_distance sv el (t0 + real m)"
    and hi: "interior_distance sv el (t0 + real (Suc m)) < interior_distance sv el (t0 + real k)"
    and s: "s = s1\<lparr>bracket := window_of sv el t0 m (Suc k),
                  min_distance := Fin (interior_distance sv el
                    (quadratic_approximation
                       (t0 + real m) (interior_distance sv el (t0 + real m))
                       (t0 + real (Suc m)) (interior_distance sv el (t0 + real (Suc m)))
                       (t0 + real k) (interior_distance sv el (t0 + real k)))),
                  min_et := Some (quadratic_approximation
                       (t0 + real m) (interior_distance sv el (t0 + real m))
                       (t0 + real (Suc m)) (interior_distance sv el (t0 + real (Suc m)))
                       (t0 + real k) (interior_distance sv el (t0 + real k))),
                  dt_et := quadratic_approximation
                       (t0 + real m) (interior_distance sv el (t0 + real m))
                       (t0 + real (Suc m)) (interior_distance sv el (t0 + real (Suc m)))
                       (t0 + real k) (interior_distance sv el (t0 + real k)) + 10,
                  step := 10\<rparr>"
    by blast
  have t1: "t0 + real (Suc m) = t0 + real m + 1" and t2: "t0 + real k = t0 + real m + 2"
    by (simp_all add: m)
  from k m have "Suc (Suc m) < n" by simp
  with lo hi s show ?thesis
    unfolding t1 t2 by (intro exI [of _ m]) simp
qed




lemma table_world_distance:
  "distance_from_earth table_world t el =
     (if el = [0] then \<bar>100 - 10 * t\<bar>
      else \<bar>if t = 0 then 1 else if t = 2 then 9 else if t \<le> 3 then 10 else 191\<bar>)"
  by (simp add: distance_from_earth_def table_world_def)

lemma table_world_interior_distance:
  "interior_distance table_world el t =
     (if el = [0] then \<bar>100 - 10 * t\<bar>
      else \<bar>if t = 0 then 1 else if t = 2 then 9 else if t \<le> 3 then 10 else 191\<bar>)"
  by (simp add: table_world_def)

lemma table_world_oscelt: "oscelt table_world st t mu = [1]"
  by (simp add: table_world_def)

lemma table_world_brentq: "brentq table_world = secant"
  by (simp add: table_world_def)

lemma fit_1_2_3: "quadratic_approximation 1 10 2 9 3 10 = 2"
  by (simp add: quadratic_approximation_def polyfit2_def mean3_def Let_def)

lemma run_t_entry: "entry_scan table_world [0] 100 20 0 4 = Inr 0"
  by (simp add: eval_nat_numeral table_world_distance table_world_brentq secant_def)

lemma run_t_interior:
  "interior_scan table_world [1] 4 (interior_start 0) =
     Break \<lparr>dt_et = 12, step = 10, bracket = [(1, 10), (2, 9), (3, 10)],
             min_distance = Fin 9, min_et = Some 2\<rparr>"
  by (simp add: eval_nat_numeral interior_start_def interior_body_def check_bracket_def
      table_world_def fit_1_2_3)

lemma run_t_exit: "exit_scan table_world [1] 100 10 12 4 [0] = Inr [0, 7]"
  by (simp add: eval_nat_numeral table_world_distance table_world_brentq secant_def)

lemma run_t: "calculate_crossings table_world [0] 0 100 4 = Inr ([0, 7], Some 2, Fin 9)"
  by (simp add: calculate_crossings_def run_t_entry table_world_oscelt run_t_interior run_t_exit)

lemma calculate_crossings_min_et:
  assumes "calculate_crossings sv pha_el start soi max_iter = Inr (cs, et, md)"
  shows "et \<noteq> None \<and> md \<noteq> PInf \<and> cs \<noteq> []"
proof -
  from assms obtain te s where entry: "entry_scan sv pha_el soi 20 start max_iter = Inr te"
    and s: "s = flow_state (interior_scan sv (oscelt sv (conics sv pha_el te) te GM_EARTH) max_iter
                  (interior_start te))"
    and exit: "exit_scan sv (oscelt sv (conics sv pha_el te) te GM_EARTH) soi (step s) (dt_et s)
                 max_iter [te] = Inr cs"
    and ret: "et = min_et s" "md = min_distance s"
    by (rule calculate_crossings_Inr)
  from entry have pos: "max_iter \<noteq> 0" using entry_scan_Inr_positive by fastforce
  have "min_et s \<noteq> None \<and> min_distance s \<noteq> PInf"
  proof (cases "interior_scan sv (oscelt sv (conics sv pha_el te) te GM_EARTH) max_iter
                  (interior_start te)")
    case (Continue s')
    with s have "scanning sv (oscelt sv (conics sv pha_el te) te GM_EARTH) te max_iter s"
      by (simp add: interior_scan_start_Continue)
    with pos show ?thesis by (auto simp: scanning_def raw_minimum_def)
  next
    case (Break s')
    with s have "interior_scan sv (oscelt sv (conics sv pha_el te) te GM_EARTH) max_iter
                   (interior_start te) = Break s" by simp
    from interior_scan_start_Break [OF this] show ?thesis by auto
  qed
  moreover have "cs \<noteq> []"
  proof -
    have "\<And>h t n. exit_scan sv (oscelt sv (conics sv pha_el te) te GM_EARTH) soi h t n [te] = Inr cs
            \<Longrightarrow> cs \<noteq> []"
    proof -
      fix h t n
      show "exit_scan sv (oscelt sv (conics sv pha_el te) te GM_EARTH) soi h t n [te] = Inr cs
            \<Longrightarrow> cs \<noteq> []"
        by (induction n arbitrary: t) (auto split: if_splits sum.splits)
    qed
    with exit show ?thesis by blast
  qed
  ultimately show ?thesis using ret by simp
qed










section \<open>The claims\<close>

subsection \<open>C1: the distance used by the exit scan\<close>

text \<open>
  C1 says that the distance the exit scan compares with the SOI radius is the norm of
  the position computed from the Earth-relative elements, with no subtraction of the
  Earth's heliocentric position. The exit scan calls \<^const>\<open>distance_from_earth\<close>,
  which subtracts that position; the scan inside the SOI takes the norm directly
  (\<^term>\<open>interior_distance\<close>). With the Earth at 1000 on the axis and elements that put
  the PHA at 1050 at time 2, the exit scan compares 50 with the radius 100 and goes on
  to time 3, although the norm of the position is 1050 already at time 2; the whole
  computation therefore reports the exit at 3.
\<close>

theorem exit_scan_subtracts_earth_position:
  "distance_from_earth (line_world 1000) 2 [900, 50, - 1] = 50 \<and>
   interior_distance (line_world 1000) [900, 50, - 1] 2 = 1050 \<and>
   exit_scan (line_world 1000) [900, 50, - 1] 100 1 2 3 [- 1] = Inr [- 1, 3] \<and>
   calculate_crossings (line_world 1000) [950, 50, 0] 0 100 3 =
     Inr ([- 1, 3], Some (- 1), Fin 900)"
  by (simp add: line_world_distance line_world_interior_distance run_a_exit run_a)

subsection \<open>C2: running out of iterations\<close>

text \<open>
  C2 says that the entry scan and the exit scan both raise when they run out of
  iterations. The entry scan does (\<^const>\<open>entry_scan\<close> at budget 0); the exit scan does
  not: here its three samples all stay below the radius, and the computation returns
  one crossing, a closest approach and no error.
\<close>

theorem exit_exhaustion_returns_partial_result:
  "distance_from_earth (line_world 1000) 23 [900, 5, 20] < 100 \<and>
   distance_from_earth (line_world 1000) 24 [900, 5, 20] < 100 \<and>
   distance_from_earth (line_world 1000) 25 [900, 5, 20] < 100 \<and>
   calculate_crossings (line_world 1000) [800, 5, 0] 0 100 3 = Inr ([20], Some 20, Fin 900)"
  by (simp add: line_world_distance run_b)

subsection \<open>C3: the order of the three times\<close>




subsection \<open>C4: the fallback minimum\<close>




subsection \<open>C6: where the two crossing scans stop\<close>

text \<open>
  C6. The entry scan started at \<open>t\<close> with step \<open>h\<close> stops at the first scanned time
  \<open>t + k * h\<close> whose distance is at most the threshold, the exit scan at the first
  scanned time whose distance is at least the threshold; each then returns what the
  root finder gives for \<open>distance - threshold\<close> over the bracket from that time minus
  the step to that time.
\<close>

theorem scans_stop_at_first_crossing:
  "((\<forall>j<k. soi < distance_from_earth sv (t + real j * h) el) \<and>
    distance_from_earth sv (t + real k * h) el \<le> soi \<and> k < n \<longrightarrow>
      entry_scan sv el soi h t n =
        brentq sv (\<lambda>t'. distance_from_earth sv t' el - soi) (t + real k * h - h) (t + real k * h))
   \<and>
   ((\<forall>j<k'. distance_from_earth sv (u + real j * h') el' < soi) \<and>
    soi \<le> distance_from_earth sv (u + real k' * h') el' \<and> k' < n' \<longrightarrow>
      exit_scan sv el' soi h' u n' cs =
        (case brentq sv (\<lambda>t'. distance_from_earth sv t' el' - soi)
                (u + real k' * h' - h') (u + real k' * h') of
           Inl e \<Rightarrow> Inl e
         | Inr t_exit \<Rightarrow> Inr (cs @ [t_exit])))"
  using entry_scan_stops_first [of k n soi sv t h el]
    exit_scan_stops_first [of k' n' sv u h' el' soi cs]
  by blast

theorem scans_stop_at_first_crossing_witness:
  "entry_scan (line_world 1000) [800, 5, 0] 100 20 0 3 =
     brentq (line_world 1000) (\<lambda>t'. distance_from_earth (line_world 1000) t' [800, 5, 0] - 100) 0 20
   \<and> exit_scan (line_world 1000) [900, 50, - 1] 100 1 2 3 [- 1] =
     (case brentq (line_world 1000)
             (\<lambda>t'. distance_from_earth (line_world 1000) t' [900, 50, - 1] - 100) 2 3 of
        Inl e \<Rightarrow> Inl e
      | Inr t_exit \<Rightarrow> Inr ([- 1] @ [t_exit]))"
  using scans_stop_at_first_crossing [of 1 100 "line_world 1000" 0 20 "[800, 5, 0]" 3
      1 2 1 "[900, 50, - 1]" 3 "[- 1]"]
  by (simp add: line_world_distance)

subsection \<open>C7: a threshold above the first distance\<close>

text \<open>
  C7, as amended: if the iteration budget is at least 1 and the threshold is larger than
  the distance at the starting time, the entry scan triggers on the first sample: its
  result is the refinement over the bracket from \<open>start - step\<close> to \<open>start\<close>. (With a
  budget of 0 no sample is taken: see the counterexample below.)
\<close>

theorem entry_triggers_on_first_sample:
  assumes "0 < n" and "distance_from_earth sv start el < soi"
  shows "entry_scan sv el soi h start n =
           brentq sv (\<lambda>t'. distance_from_earth sv t' el - soi) (start - h) start"
  using assms by (cases n) simp_all

theorem entry_triggers_on_first_sample_witness:
  "entry_scan (line_world 1000) [950, 50, 0] 100 20 0 3 =
     brentq (line_world 1000) (\<lambda>t'. distance_from_earth (line_world 1000) t' [950, 50, 0] - 100)
       (0 - 20) 0"
  using entry_triggers_on_first_sample [of 3 "line_world 1000" 0 "[950, 50, 0]" 100 20]
  by (simp add: line_world_distance)

theorem entry_without_budget_counterexample:
  "distance_from_earth (line_world 1000) 0 [950, 50, 0] < 100 \<and>
   entry_scan (line_world 1000) [950, 50, 0] 100 20 0 0 =
     Inl (RuntimeError ''First SOI crossing not found'') \<and>
   brentq (line_world 1000) (\<lambda>t'. distance_from_earth (line_world 1000) t' [950, 50, 0] - 100)
     (0 - 20) 0 = Inr (- 1)"
  by (simp add: line_world_simps secant_def)

subsection \<open>C8: the sliding window\<close>



subsection \<open>C9: no iterations at all\<close>

text \<open>
  C9. With \<^verbatim>\<open>max_iter = 0\<close> the computation raises ``First SOI crossing not found'',
  whatever the services return: no value of the distance oracle enters the result, also
  when the distance at the starting time is below the threshold.
\<close>

theorem zero_budget_raises:
  "calculate_crossings sv pha_el dt_et_start soi 0 =
     Inl (RuntimeError ''First SOI crossing not found'')"
  by (simp add: calculate_crossings_def)

subsection \<open>C10: a confirmed minimum replaces the fallback\<close>

text \<open>
  C10. If the scan inside the SOI of a call of \<^const>\<open>calculate_crossings\<close> confirms a
  three-point strict local minimum, the distance returned is the distance evaluated again
  at the vertex time of the fit, and the time returned is that vertex time: the running
  minimum of the raw samples plays no part, and neither does the sample that completed
  the window. In the witness the first raw sample, 1, is smaller than the distance 9
  that is returned.
\<close>

theorem confirmed_minimum_replaces_fallback:
  assumes run: "calculate_crossings sv pha_el start soi max_iter = Inr (cs, et, md)"
    and entry: "entry_scan sv pha_el soi 20 start max_iter = Inr t_entry"
    and el: "el = oscelt sv (conics sv pha_el t_entry) t_entry GM_EARTH"
    and found: "interior_scan sv el max_iter (interior_start t_entry) = Break s"
  shows "\<exists>m. Suc (Suc m) < max_iter \<and>
           interior_distance sv el (t_entry + real m + 1)
             < interior_distance sv el (t_entry + real m) \<and>
           interior_distance sv el (t_entry + real m + 1)
             < interior_distance sv el (t_entry + real m + 2) \<and>
           et = Some (quadratic_approximation
              (t_entry + real m) (interior_distance sv el (t_entry + real m))
              (t_entry + real m + 1) (interior_distance sv el (t_entry + real m + 1))
              (t_entry + real m + 2) (interior_distance sv el (t_entry + real m + 2))) \<and>
           md = Fin (interior_distance sv el (quadratic_approximation
              (t_entry + real m) (interior_distance sv el (t_entry + real m))
              (t_entry + real m + 1) (interior_distance sv el (t_entry + real m + 1))
              (t_entry + real m + 2) (interior_distance sv el (t_entry + real m + 2))))"
proof -
  from run obtain te s' where te: "entry_scan sv pha_el soi 20 start max_iter = Inr te"
    and s': "s' = flow_state (interior_scan sv (oscelt sv (conics sv pha_el te) te GM_EARTH) max_iter
                  (interior_start te))"
    and ret: "et = min_et s'" "md = min_distance s'"
    by (rule calculate_crossings_Inr)
  from te entry have "te = t_entry" by simp
  with s' el found have "s' = s" by simp
  with ret have ret': "et = min_et s" "md = min_distance s" by simp_all
  from interior_scan_start_Break [OF found] show ?thesis
    unfolding ret' by blast
qed

theorem confirmed_minimum_replaces_fallback_witness:
  "calculate_crossings table_world [0] 0 100 4 = Inr ([0, 7], Some 2, Fin 9) \<and>
   interior_distance table_world [1] 0 = 1 \<and>
   interior_distance table_world [1] 2 = 9 \<and>
   (\<exists>m. Suc (Suc m) < 4 \<and>
      Fin 9 = Fin (interior_distance table_world [1] (quadratic_approximation
              (0 + real m) (interior_distance table_world [1] (0 + real m))
              (0 + real m + 1) (interior_distance table_world [1] (0 + real m + 1))
              (0 + real m + 2) (interior_distance table_world [1] (0 + real m + 2)))))"
proof -
  have el: "[1] = oscelt table_world (conics table_world [0] 0) 0 GM_EARTH"
    by (simp add: table_world_oscelt)
  from confirmed_minimum_replaces_fallback [OF run_t run_t_entry el run_t_interior]
  obtain m where "Suc (Suc m) < 4"
    "Fin 9 = Fin (interior_distance table_world [1] (quadratic_approximation
              (0 + real m) (interior_distance table_world [1] (0 + real m))
              (0 + real m + 1) (interior_distance table_world [1] (0 + real m + 1))
              (0 + real m + 2) (interior_distance table_world [1] (0 + real m + 2))))"
    by blast
  then have "\<exists>m. Suc (Suc m) < 4 \<and>
      Fin 9 = Fin (interior_distance table_world [1] (quadratic_approximation
              (0 + real m) (interior_distance table_world [1] (0 + real m))
              (0 + real m + 1) (interior_distance table_world [1] (0 + real m + 1))
              (0 + real m + 2) (interior_distance table_world [1] (0 + real m + 2))))"
    by blast
  moreover have "interior_distance table_world [1] 0 = 1" "interior_distance table_world [1] 2 = 9"
    by (simp_all add: table_world_interior_distance)
  ultimately show ?thesis using run_t by blast
qed

end
